theory Spec2Isabelle
  imports Complex_Main
begin

section \<open>Numbers and errors\<close>

text \<open>
  The conversion functions of both exercises work on Python floats. They are modelled over
  the real numbers: an argument is a \<^typ>\<open>real\<close>, arithmetic is exact. Two places of the
  source leave the reals and are written out:
  \<^item> \<^verbatim>\<open>np.sqrt\<close> of a negative number does not raise, it returns \<^verbatim>\<open>nan\<close>;
  \<^item> \<^verbatim>\<open>/\<close> on Python floats raises \<^verbatim>\<open>ZeroDivisionError\<close> when the divisor is zero.
\<close>

datatype npfloat = Fin real | NaN

definition np_sqrt :: "real \<Rightarrow> npfloat" where
  "np_sqrt x = (if x < 0 then NaN else Fin (sqrt x))"

text \<open>
  Every \<^verbatim>\<open>raise ValueError(...)\<close> of the source carries a message; the messages are kept
  apart by one constructor each:
  \<^item> \<open>SemiMajorAxisNotPositive\<close>: "El semi-eje mayor debe ser positivo."
  \<^item> \<open>EccentricityOutOfRange\<close>: "La excentricidad debe estar entre 0 (incluido) y 1 (excluido)."
  \<^item> \<open>EnergyNotNegative\<close>: "La energia debe ser negativa para orbitas elipticas."
  \<^item> \<open>MomentumNotPositive\<close>: "El momento angular debe ser positivo."
  \<^item> \<open>NotEllipticOrbit\<close>: "Los valores no representan una orbita eliptica valida."
  \<^item> \<open>EccentricityNegative\<close>: "La excentricidad no puede ser negativa."
  \<^item> \<open>InconsistentElements\<close>: "La combinacion de a y e no representa una orbita valida."
  \<^item> \<open>NotValidOrbit\<close>: "Los valores no representan una orbita valida."
\<close>

datatype message =
    SemiMajorAxisNotPositive
  | EccentricityOutOfRange
  | EnergyNotNegative
  | MomentumNotPositive
  | NotEllipticOrbit
  | EccentricityNegative
  | InconsistentElements
  | NotValidOrbit

datatype error = ValueError message | ZeroDivisionError

fun is_ValueError :: "error + 'a \<Rightarrow> bool" where
  "is_ValueError (Inl (ValueError m)) = True"
| "is_ValueError (Inl ZeroDivisionError) = False"
| "is_ValueError (Inr v) = False"


section \<open>Ejercicio 7: ellipses only\<close>

text \<open>\<^verbatim>\<open>ae2Eh(a, e, mu)\<close> of Ejercicio 7, lines 26 to 33.\<close>

definition ae2Eh_ej7 :: "real \<Rightarrow> real \<Rightarrow> real \<Rightarrow> error + (real \<times> npfloat)" where
  "ae2Eh_ej7 a e mu =
     (if a \<le> 0 then Inl (ValueError SemiMajorAxisNotPositive)
      else if \<not> (0 \<le> e \<and> e < 1) then Inl (ValueError EccentricityOutOfRange)
      else
        let epsilon = - mu / (2 * a);
            h = np_sqrt (mu * a * (1 - e\<^sup>2))
        in Inr (epsilon, h))"

text \<open>
  \<^verbatim>\<open>Eh2ae(epsilon, h, mu)\<close> of Ejercicio 7, lines 54 to 66. The divisor \<^verbatim>\<open>2 * epsilon\<close> is
  not zero once the first check has passed; the divisor \<^verbatim>\<open>mu * a\<close> can be.
\<close>

definition Eh2ae_ej7 :: "real \<Rightarrow> real \<Rightarrow> real \<Rightarrow> error + (real \<times> npfloat)" where
  "Eh2ae_ej7 epsilon h mu =
     (if epsilon \<ge> 0 then Inl (ValueError EnergyNotNegative)
      else if h \<le> 0 then Inl (ValueError MomentumNotPositive)
      else
        let a = - mu / (2 * epsilon) in
        if mu * a = 0 then Inl ZeroDivisionError
        else
          let e2 = 1 - h\<^sup>2 / (mu * a) in
          if e2 < 0 then Inl (ValueError NotEllipticOrbit)
          else Inr (a, np_sqrt e2))"


section \<open>Ejercicio 8: every conic\<close>

text \<open>\<^verbatim>\<open>ae2Eh(a, e, mu)\<close> of Ejercicio 8, lines 4 to 19.\<close>

definition ae2Eh_ej8 :: "real \<Rightarrow> real \<Rightarrow> real \<Rightarrow> error + (real \<times> npfloat)" where
  "ae2Eh_ej8 a e mu =
     (if e < 0 then Inl (ValueError EccentricityNegative)
      else if e = 1 then
        let h = np_sqrt (mu * a);
            epsilon = 0
        in Inr (epsilon, h)
      else if (e < 1 \<and> a \<le> 0) \<or> (e > 1 \<and> a \<ge> 0)
        then Inl (ValueError InconsistentElements)
      else
        let epsilon = - mu / (2 * a);
            h = np_sqrt (mu * \<bar>a\<bar> * \<bar>1 - e\<^sup>2\<bar>)
        in Inr (epsilon, h))"

text \<open>
  \<^verbatim>\<open>Eh2ae(epsilon, h, mu)\<close> of Ejercicio 8, lines 21 to 42. Both branches of the test
  \<^verbatim>\<open>epsilon > 0\<close> assign the same expression to \<^verbatim>\<open>a\<close>, as in the source.
\<close>

definition Eh2ae_ej8 :: "real \<Rightarrow> real \<Rightarrow> real \<Rightarrow> error + (real \<times> npfloat)" where
  "Eh2ae_ej8 epsilon h mu =
     (if h \<le> 0 then Inl (ValueError MomentumNotPositive)
      else if epsilon = 0 then
        (if mu = 0 then Inl ZeroDivisionError
         else
           let p = h\<^sup>2 / mu;
               a = p;
               e = Fin 1
           in Inr (a, e))
      else
        let a = (if epsilon > 0 then - mu / (2 * epsilon) else - mu / (2 * epsilon)) in
        if mu * a = 0 then Inl ZeroDivisionError
        else
          let e2 = 1 - h\<^sup>2 / (mu * a) in
          if e2 < 0 then Inl (ValueError NotValidOrbit)
          else Inr (a, np_sqrt e2))"


section \<open>The sampled true anomaly of \<^verbatim>\<open>plot_orbit\<close>\<close>





section \<open>The test case of Ejercicio 7\<close>

text \<open>
  The constants of the \<^verbatim>\<open>__main__\<close> block, lines 117 to 119: \<^verbatim>\<open>MU = 3.986e14\<close>,
  \<^verbatim>\<open>a_demo = 15000e3\<close> and \<^verbatim>\<open>e_demo = 0.6\<close>, read as decimal fractions.
\<close>

definition MU :: real where
  "MU = 398600000000000"

definition a_demo :: real where
  "a_demo = 15000000"

definition e_demo :: real where
  "e_demo = 6 / 10"


section \<open>Properties of \<open>linspace\<close>\<close>






section \<open>The forward conversion of Ejercicio 7\<close>


lemma np_sqrt_neg: "x < 0 \<Longrightarrow> np_sqrt x = NaN"
  by (simp add: np_sqrt_def)



lemma ae2Eh_ej7_accepts:
  assumes "0 < a" "0 \<le> e" "e < 1"
  shows "ae2Eh_ej7 a e mu = Inr (- mu / (2 * a), np_sqrt (mu * a * (1 - e\<^sup>2)))"
  using assms by (simp add: ae2Eh_ej7_def)







section \<open>Round trip and the other conversions\<close>






text \<open>
  Claim C5. At \<open>e = 1\<close>, \<^verbatim>\<open>ae2Eh\<close> of Ejercicio 8 reads \<open>a\<close> as the semi-latus-rectum
  \<open>p\<close> and returns \<open>epsilon = 0\<close>, \<open>h = np.sqrt (mu p)\<close>; for \<open>p = 7000e3\<close> and every
  \<open>mu > 0\<close> that is \<open>epsilon = 0\<close> and the real number \<open>h = sqrt (mu 7000e3)\<close>.
\<close>

theorem C5_parabolic_forward:
  "ae2Eh_ej8 p 1 mu = Inr (0, np_sqrt (mu * p))
   \<and> (0 < mu \<longrightarrow> ae2Eh_ej8 7000000 1 mu = Inr (0, Fin (sqrt (mu * 7000000))))"
  by (simp add: ae2Eh_ej8_def Let_def np_sqrt_def)

text \<open>
  The parabola of \<open>p = 7000e3\<close> at \<open>mu = 3\<close>.
\<close>

theorem C5_parabolic_forward_witness:
  "ae2Eh_ej8 7000000 1 3 = Inr (0, Fin (sqrt 21000000))"
  using C5_parabolic_forward [of 7000000 3] by (simp add: np_sqrt_def)

text \<open>
  Claim C6. For every \<open>epsilon\<close>, \<open>mu\<close> and every \<open>h \<le> 0\<close>, \<^verbatim>\<open>Eh2ae\<close> raises a
  \<^verbatim>\<open>ValueError\<close> in Ejercicio 7 and in Ejercicio 8, and returns no pair. In Ejercicio 7
  the energy check comes first, so for \<open>epsilon \<ge> 0\<close> the error carries the message of
  the energy check; it is a \<^verbatim>\<open>ValueError\<close> all the same.
\<close>

theorem C6_momentum_rejected:
  "h \<le> 0 \<longrightarrow>
     Eh2ae_ej7 epsilon h mu =
       Inl (ValueError (if epsilon \<ge> 0 then EnergyNotNegative else MomentumNotPositive))
     \<and> Eh2ae_ej8 epsilon h mu = Inl (ValueError MomentumNotPositive)
     \<and> is_ValueError (Eh2ae_ej7 epsilon h mu)
     \<and> is_ValueError (Eh2ae_ej8 epsilon h mu)"
  by (simp add: Eh2ae_ej7_def Eh2ae_ej8_def)

text \<open>
  A negative \<open>h\<close> with a positive energy, a zero \<open>h\<close> with a negative energy.
\<close>

theorem C6_momentum_rejected_witness:
  "Eh2ae_ej7 5 (- 1) 1 = Inl (ValueError EnergyNotNegative)
   \<and> Eh2ae_ej7 (- 5) 0 1 = Inl (ValueError MomentumNotPositive)
   \<and> Eh2ae_ej8 5 (- 1) 1 = Inl (ValueError MomentumNotPositive)"
  using C6_momentum_rejected [of "- 1" 5 1] C6_momentum_rejected [of 0 "- 5" 1]
  by simp


section \<open>Sampling, the test case and the open conics\<close>





lemma fixture_radicand:
  "MU * a_demo * (1 - e_demo\<^sup>2) = 3826560000000000000000"
  by (simp add: MU_def a_demo_def e_demo_def power2_eq_square)

lemma fixture_sqrt_bounds:
  "61855000000 < sqrt 3826560000000000000000"
  "sqrt 3826560000000000000000 < 61865000000"
proof -
  show "61855000000 < sqrt 3826560000000000000000"
    by (rule real_less_rsqrt) simp
  show "sqrt 3826560000000000000000 < 61865000000"
    by (rule real_less_lsqrt) simp_all
qed

lemma fixture_value:
  "ae2Eh_ej7 a_demo e_demo MU = Inr (- 39860000 / 3, Fin (sqrt 3826560000000000000000))"
proof -
  have acc: "0 < a_demo" "0 \<le> e_demo" "e_demo < 1"
    by (simp_all add: a_demo_def e_demo_def)
  have eps: "- MU / (2 * a_demo) = - 39860000 / 3"
    by (simp add: MU_def a_demo_def)
  show ?thesis
    unfolding ae2Eh_ej7_accepts [OF acc] fixture_radicand eps
    by (simp add: np_sqrt_def)
qed

text \<open>
  Claim C8, as the code has it. On the test case \<open>a = 1.5e7\<close>, \<open>e = 0.6\<close>,
  \<open>mu = 3.986e14\<close>, \<^verbatim>\<open>ae2Eh\<close> of Ejercicio 7 returns \<open>epsilon = - 39860000 / 3\<close>, which
  is \<open>- 1.3287e7\<close> to five significant digits, and \<open>h = sqrt 3.82656e21\<close>, which is
  \<open>6.186e10\<close> to four significant digits.
\<close>

theorem C8_fixture:
  "ae2Eh_ej7 a_demo e_demo MU = Inr (- 39860000 / 3, Fin (sqrt 3826560000000000000000))
   \<and> \<bar>- 39860000 / 3 - (- 13287000 :: real)\<bar> \<le> 500
   \<and> \<bar>sqrt 3826560000000000000000 - 61860000000\<bar> \<le> 5000000"
proof -
  have "\<bar>- 39860000 / 3 - (- 13287000 :: real)\<bar> \<le> 500"
    by simp
  moreover have "\<bar>sqrt 3826560000000000000000 - 61860000000\<bar> \<le> 5000000"
    using fixture_sqrt_bounds by simp
  ultimately show ?thesis
    using fixture_value by simp
qed

text \<open>
  On the same test case \<open>h\<close> is not \<open>6.928e9\<close> to four significant digits.
\<close>

theorem C8_fixture_counterexample:
  "ae2Eh_ej7 a_demo e_demo MU = Inr (- 39860000 / 3, Fin (sqrt 3826560000000000000000))
   \<and> \<not> \<bar>sqrt 3826560000000000000000 - 6928000000\<bar> \<le> 500000"
  using fixture_value fixture_sqrt_bounds(1) by simp




text \<open>
  Claim C10. At \<open>e = 1\<close>, \<^verbatim>\<open>ae2Eh\<close> of Ejercicio 8 never raises, whatever \<open>a\<close> is: it
  returns \<open>epsilon = 0\<close> and \<open>h = np.sqrt (mu a)\<close>, which for \<open>mu > 0\<close> and \<open>a < 0\<close> is
  \<^verbatim>\<open>nan\<close>, not a real number.
\<close>

theorem C10_parabola_unvalidated:
  "\<not> isl (ae2Eh_ej8 a 1 mu)
   \<and> ae2Eh_ej8 a 1 mu = Inr (0, np_sqrt (mu * a))
   \<and> (0 < mu \<and> a < 0 \<longrightarrow> ae2Eh_ej8 a 1 mu = Inr (0, NaN))"
  by (simp add: ae2Eh_ej8_def Let_def np_sqrt_def mult_pos_neg)

text \<open>
  A negative and a zero \<open>a\<close> at \<open>e = 1\<close>.
\<close>

theorem C10_parabola_unvalidated_witness:
  "ae2Eh_ej8 (- 7) 1 3 = Inr (0, NaN) \<and> ae2Eh_ej8 0 1 3 = Inr (0, Fin 0)"
  using C10_parabola_unvalidated [of "- 7" 3] C10_parabola_unvalidated [of 0 3]
  by (simp add: np_sqrt_def)

end
